theory Spec2Isabelle
  imports Main "HOL-Library.Word"
begin

section \<open>Loosely typed resource trees\<close>

text \<open>
  A resource snapshot is an \<^verbatim>\<open>unstructured.Unstructured\<close>: a Go
  \<^verbatim>\<open>map[string]interface{}\<close> whose values are again maps, slices or scalars.
  The dynamic type of a value is the constructor; Go's \<^verbatim>\<open>int\<close> is taken as the
  64-bit integer of the release targets (amd64, arm64). A float64 is kept as
  significand and exponent; no arithmetic is ever done on it here.
\<close>

type_synonym goint = "64 word"

datatype float64 = Float64 int int

datatype val =
    VNil
  | VBool bool
  | VString string
  | VInt goint
  | VInt32 "32 word"
  | VInt64 "64 word"
  | VFloat64 float64
  | VSlice "val list"
  | VMap "(string \<times> val) list"

text \<open>The content of an \<^verbatim>\<open>Unstructured\<close>: a map at the top level. A Go map has one
  value per key; in the association list the first entry of a key is the one stored.\<close>

type_synonym object = "(string \<times> val) list"

text \<open>Errors are values. A failed type assertion or any other run-time panic is kept apart
  from an \<^verbatim>\<open>error\<close> return.\<close>

datatype goerror =
    AccessorError "string list"
  | ConvertError string
  | NotFoundError string
  | ClientError string
  | Errorf string "goerror option"

datatype failure = Err goerror | Panic string

text \<open>\<^verbatim>\<open>strings.Split(fieldPath, ".")\<close>: the pieces between the dots; the empty string
  splits into one empty piece.\<close>

fun split_dot :: "string \<Rightarrow> string list" where
  "split_dot [] = [[]]"
| "split_dot (c # cs) =
     (if c = CHR ''.'' then [] # split_dot cs
      else (case split_dot cs of [] \<Rightarrow> [[c]] | x # xs \<Rightarrow> (c # x) # xs))"

text \<open>
  Modelled from the spec: the accessors of \<^verbatim>\<open>k8s.io/apimachinery/.../unstructured\<close>
  (\<^verbatim>\<open>NestedFieldNoCopy\<close>, \<^verbatim>\<open>NestedString\<close>, \<^verbatim>\<open>NestedInt64\<close>, \<^verbatim>\<open>NestedSlice\<close>)
  are library code outside the sources. They walk the path through nested maps; a missing
  key or a nil on the way is "not found", a non-map on the way is an error, and the typed
  variants report an error when the value found has another dynamic type.
  The Go triple \<^verbatim>\<open>(val, found, err)\<close> is \<open>Inr (Some val)\<close>, \<open>Inr None\<close> or \<open>Inl err\<close>.
\<close>

fun NestedFieldNoCopy :: "val \<Rightarrow> string list \<Rightarrow> goerror + val option" where
  "NestedFieldNoCopy v [] = Inr (Some v)"
| "NestedFieldNoCopy VNil (f # fs) = Inr None"
| "NestedFieldNoCopy (VMap m) (f # fs) =
     (case map_of m f of None \<Rightarrow> Inr None | Some v \<Rightarrow> NestedFieldNoCopy v fs)"
| "NestedFieldNoCopy v (f # fs) = Inl (AccessorError (f # fs))"

definition NestedString :: "object \<Rightarrow> string list \<Rightarrow> goerror + string option" where
  "NestedString obj fields =
     (case NestedFieldNoCopy (VMap obj) fields of
        Inl e \<Rightarrow> Inl e
      | Inr None \<Rightarrow> Inr None
      | Inr (Some (VString s)) \<Rightarrow> Inr (Some s)
      | Inr (Some _) \<Rightarrow> Inl (AccessorError fields))"

definition NestedInt64 :: "object \<Rightarrow> string list \<Rightarrow> goerror + 64 word option" where
  "NestedInt64 obj fields =
     (case NestedFieldNoCopy (VMap obj) fields of
        Inl e \<Rightarrow> Inl e
      | Inr None \<Rightarrow> Inr None
      | Inr (Some (VInt64 n)) \<Rightarrow> Inr (Some n)
      | Inr (Some _) \<Rightarrow> Inl (AccessorError fields))"

text \<open>\<^verbatim>\<open>NestedSlice\<close> returns a deep copy made by \<^verbatim>\<open>DeepCopyJSONValue\<close>, which
  panics on a value that is not of a JSON type (string, int64, bool, float64, nil, map,
  slice).\<close>

fun deepCopyable :: "val \<Rightarrow> bool" where
  "deepCopyable (VInt n) = False"
| "deepCopyable (VInt32 n) = False"
| "deepCopyable (VSlice xs) = list_all deepCopyable xs"
| "deepCopyable (VMap m) = list_all (\<lambda>kv. deepCopyable (snd kv)) m"
| "deepCopyable v = True"

definition NestedSlice :: "object \<Rightarrow> string list \<Rightarrow> failure + val list option" where
  "NestedSlice obj fields =
     (case NestedFieldNoCopy (VMap obj) fields of
        Inl e \<Rightarrow> Inl (Err e)
      | Inr None \<Rightarrow> Inr None
      | Inr (Some (VSlice xs)) \<Rightarrow>
          if deepCopyable (VSlice xs) then Inr (Some xs) else Inl (Panic ''cannot deep copy'')
      | Inr (Some _) \<Rightarrow> Inl (Err (AccessorError fields)))"

text \<open>\<^verbatim>\<open>getNestedString\<close> of the library: the string at the path, or the empty string.\<close>

definition getNestedString :: "object \<Rightarrow> string list \<Rightarrow> string" where
  "getNestedString obj fields =
     (case NestedString obj fields of Inr (Some s) \<Rightarrow> s | _ \<Rightarrow> [])"

section \<open>Field Accessor (util.go)\<close>

definition path_fields :: "string \<Rightarrow> string list" where
  "path_fields fieldPath =
     (case split_dot fieldPath of
        [] \<Rightarrow> []
      | f # fs \<Rightarrow> if f = [] then fs else f # fs)"

definition GetStringField :: "object \<Rightarrow> string \<Rightarrow> string \<Rightarrow> string" where
  "GetStringField obj fieldPath defaultValue =
     (case NestedFieldNoCopy (VMap obj) (path_fields fieldPath) of
        Inl e \<Rightarrow> defaultValue
      | Inr None \<Rightarrow> defaultValue
      | Inr (Some (VString v)) \<Rightarrow> v
      | Inr (Some _) \<Rightarrow> defaultValue)"

definition GetIntField :: "object \<Rightarrow> string \<Rightarrow> goint \<Rightarrow> goint" where
  "GetIntField obj fieldPath defaultValue =
     (case NestedFieldNoCopy (VMap obj) (path_fields fieldPath) of
        Inl e \<Rightarrow> defaultValue
      | Inr None \<Rightarrow> defaultValue
      | Inr (Some (VInt v)) \<Rightarrow> v
      | Inr (Some (VInt32 v)) \<Rightarrow> scast v
      | Inr (Some (VInt64 v)) \<Rightarrow> v
      | Inr (Some _) \<Rightarrow> defaultValue)"

section \<open>Formatting\<close>

text \<open>The verb \<^verbatim>\<open>%d\<close> of \<^verbatim>\<open>fmt.Sprintf\<close> on a signed integer: decimal digits, with a
  minus sign for a negative value.\<close>

fun showNat :: "nat \<Rightarrow> string" where
  "showNat n =
     (if n < 10 then [''0123456789'' ! n]
      else showNat (n div 10) @ [''0123456789'' ! (n mod 10)])"

declare showNat.simps [simp del]

definition showInt :: "int \<Rightarrow> string" where
  "showInt i = (if i < 0 then CHR ''-'' # showNat (nat (- i)) else showNat (nat i))"

definition fmt_d :: "goint \<Rightarrow> string" where
  "fmt_d n = showInt (sint n)"

text \<open>\<^verbatim>\<open>strings.Join(names, ",")\<close>.\<close>

fun join_comma :: "string list \<Rightarrow> string" where
  "join_comma [] = []"
| "join_comma [x] = x"
| "join_comma (x # y # ys) = x @ '','' @ join_comma (y # ys)"

section \<open>Verdicts (the Result type)\<close>

text \<open>\<^verbatim>\<open>metav1.ConditionStatus\<close> and \<^verbatim>\<open>Reason\<close> are string types with named constants.\<close>

type_synonym ConditionStatus = string
type_synonym Reason = string

definition ConditionTrue :: ConditionStatus where "ConditionTrue = ''True''"
definition ConditionFalse :: ConditionStatus where "ConditionFalse = ''False''"
definition ConditionUnknown :: ConditionStatus where "ConditionUnknown = ''Unknown''"

definition ReasonReady :: Reason where "ReasonReady = ''Ready''"
definition ReasonTerminating :: Reason where "ReasonTerminating = ''Terminating''"
definition ReasonInProgress :: Reason where "ReasonInProgress = ''InProgress''"
definition ReasonNoStatusInfo :: Reason where "ReasonNoStatusInfo = ''NoStatusInfo''"
definition ReasonUserManaged :: Reason where "ReasonUserManaged = ''UserManaged''"
definition ReasonFailed :: Reason where "ReasonFailed = ''Failed''"

definition ConditionTypeReady :: string where "ConditionTypeReady = ''Ready''"

record Result =
  Status :: ConditionStatus
  Reason :: Reason
  Message :: string

definition ready :: "string \<Rightarrow> Result" where
  "ready msg = \<lparr>Status = ConditionTrue, Reason = ReasonReady, Message = msg\<rparr>"

definition noStatusInfo :: Result where
  "noStatusInfo = \<lparr>Status = ConditionTrue, Reason = ReasonNoStatusInfo, Message = []\<rparr>"

definition userManaged :: Result where
  "userManaged = \<lparr>Status = ConditionTrue, Reason = ReasonUserManaged, Message = []\<rparr>"

definition inProgress :: "string \<Rightarrow> Result" where
  "inProgress msg = \<lparr>Status = ConditionFalse, Reason = ReasonInProgress, Message = msg\<rparr>"

definition terminating :: Result where
  "terminating = \<lparr>Status = ConditionFalse, Reason = ReasonTerminating, Message = []\<rparr>"

definition failed :: "string \<Rightarrow> Result" where
  "failed msg = \<lparr>Status = ConditionFalse, Reason = ReasonFailed, Message = msg\<rparr>"

section \<open>Condition Extractor\<close>

text \<open>A \<^verbatim>\<open>metav1.Condition\<close>, with the fields that the rules read (no rule reads
  \<^verbatim>\<open>observedGeneration\<close> or \<^verbatim>\<open>lastTransitionTime\<close>).\<close>

record Condition =
  ctype :: string
  cstatus :: ConditionStatus
  creason :: string
  cmessage :: string

text \<open>
  Modelled from the spec: \<^verbatim>\<open>runtime.DefaultUnstructuredConverter.FromUnstructured\<close> is
  library code outside the sources. The rules take the converter as a parameter (the
  field \<open>converter\<close> of the environment below); this one is used on the sample
  snapshots. It decodes \<^verbatim>\<open>status.conditions\<close> into the condition schema, in order; a
  missing or nil field is the zero value, and a value of a type the schema does not
  accept is an error.
\<close>

definition decodeStringField :: "object \<Rightarrow> string \<Rightarrow> goerror + string" where
  "decodeStringField m k =
     (case map_of m k of
        None \<Rightarrow> Inr []
      | Some VNil \<Rightarrow> Inr []
      | Some (VString s) \<Rightarrow> Inr s
      | Some _ \<Rightarrow> Inl (ConvertError k))"

definition decodeCondition :: "val \<Rightarrow> goerror + Condition" where
  "decodeCondition v =
     (case v of
        VNil \<Rightarrow> Inr \<lparr>ctype = [], cstatus = [], creason = [], cmessage = []\<rparr>
      | VMap m \<Rightarrow>
          (case decodeStringField m ''type'' of Inl e \<Rightarrow> Inl e | Inr t \<Rightarrow>
          (case decodeStringField m ''status'' of Inl e \<Rightarrow> Inl e | Inr s \<Rightarrow>
          (case decodeStringField m ''reason'' of Inl e \<Rightarrow> Inl e | Inr r \<Rightarrow>
          (case decodeStringField m ''message'' of Inl e \<Rightarrow> Inl e | Inr msg \<Rightarrow>
             Inr \<lparr>ctype = t, cstatus = s, creason = r, cmessage = msg\<rparr>))))
      | _ \<Rightarrow> Inl (ConvertError ''conditions''))"

fun decodeConditions :: "val list \<Rightarrow> goerror + Condition list" where
  "decodeConditions [] = Inr []"
| "decodeConditions (v # vs) =
     (case decodeCondition v of
        Inl e \<Rightarrow> Inl e
      | Inr c \<Rightarrow> (case decodeConditions vs of Inl e \<Rightarrow> Inl e | Inr cs \<Rightarrow> Inr (c # cs)))"

definition FromUnstructured :: "object \<Rightarrow> goerror + Condition list" where
  "FromUnstructured obj =
     (case map_of obj ''status'' of
        None \<Rightarrow> Inr []
      | Some VNil \<Rightarrow> Inr []
      | Some (VMap st) \<Rightarrow>
          (case map_of st ''conditions'' of
             None \<Rightarrow> Inr []
           | Some VNil \<Rightarrow> Inr []
           | Some (VSlice vs) \<Rightarrow> decodeConditions vs
           | Some _ \<Rightarrow> Inl (ConvertError ''conditions''))
      | Some _ \<Rightarrow> Inl (ConvertError ''status''))"

text \<open>
  What a classification uses besides the snapshot: the clock (\<^verbatim>\<open>time.Now()\<close>, an
  instant counted in nanoseconds from the Unix epoch) and two services of the libraries,
  taken as they come: the RFC 3339 parser of timestamps and the converter
  \<^verbatim>\<open>runtime.DefaultUnstructuredConverter\<close>, which hands back the conditions of an
  object or an error.
\<close>

type_synonym time = int

record env =
  now :: time
  parseRFC3339 :: "string \<Rightarrow> time option"
  converter :: "object \<Rightarrow> goerror + Condition list"

text \<open>\<^verbatim>\<open>GetObjectWithConditions\<close>: the typed view, here the list \<^verbatim>\<open>Status.Conditions\<close>.\<close>

definition GetObjectWithConditions :: "env \<Rightarrow> object \<Rightarrow> failure + Condition list" where
  "GetObjectWithConditions ev obj =
     (case converter ev obj of Inl e \<Rightarrow> Inl (Err e) | Inr cs \<Rightarrow> Inr cs)"

text \<open>\<^verbatim>\<open>getConditionWithStatus\<close>: the first condition of that type and status, if any
  (\<open>(Condition{}, false)\<close> is \<open>None\<close>).\<close>

fun getConditionWithStatus :: "Condition list \<Rightarrow> string \<Rightarrow> ConditionStatus \<Rightarrow> Condition option" where
  "getConditionWithStatus [] conditionType status = None"
| "getConditionWithStatus (c # cs) conditionType status =
     (if ctype c = conditionType \<and> cstatus c = status then Some c
      else getConditionWithStatus cs conditionType status)"

definition hasConditionWithStatus :: "Condition list \<Rightarrow> string \<Rightarrow> ConditionStatus \<Rightarrow> bool" where
  "hasConditionWithStatus conditions conditionType status =
     (case getConditionWithStatus conditions conditionType status of None \<Rightarrow> False | Some c \<Rightarrow> True)"

section \<open>Identity and time of a snapshot\<close>

text \<open>
  Modelled from the spec: the getters of \<^verbatim>\<open>Unstructured\<close> (\<^verbatim>\<open>GetKind\<close>,
  \<^verbatim>\<open>GetAPIVersion\<close>, \<^verbatim>\<open>GroupVersionKind\<close>, \<^verbatim>\<open>GetCreationTimestamp\<close>) are library
  code outside the sources. The group is the part of \<^verbatim>\<open>apiVersion\<close> before its slash
  (empty for the core group); a timestamp that is absent or does not parse is the zero
  time (year 1).
\<close>

definition GetKind :: "object \<Rightarrow> string" where
  "GetKind obj = getNestedString obj [''kind'']"

definition GetAPIVersion :: "object \<Rightarrow> string" where
  "GetAPIVersion obj = getNestedString obj [''apiVersion'']"

definition ParseGroupVersion :: "string \<Rightarrow> (string \<times> string) option" where
  "ParseGroupVersion gv =
     (if gv = [] \<or> gv = ''/'' then Some ([], [])
      else if count_list gv (CHR ''/'') = 0 then Some ([], gv)
      else if count_list gv (CHR ''/'') = 1
        then Some (takeWhile (\<lambda>c. c \<noteq> CHR ''/'') gv, tl (dropWhile (\<lambda>c. c \<noteq> CHR ''/'') gv))
      else None)"

definition GroupVersionKind :: "object \<Rightarrow> string \<times> string \<times> string" where
  "GroupVersionKind obj =
     (case ParseGroupVersion (GetAPIVersion obj) of
        None \<Rightarrow> ([], [], [])
      | Some (g, v) \<Rightarrow> (g, v, GetKind obj))"

definition GetNamespace :: "object \<Rightarrow> string" where
  "GetNamespace obj = getNestedString obj [''metadata'', ''namespace'']"

definition GetName :: "object \<Rightarrow> string" where
  "GetName obj = getNestedString obj [''metadata'', ''name'']"

definition zeroTime :: time where
  "zeroTime = - 62135596800 * 1000000000"

definition ScheduleWindow :: int where
  "ScheduleWindow = 15 * 1000000000"

definition GetCreationTimestamp :: "env \<Rightarrow> object \<Rightarrow> time" where
  "GetCreationTimestamp ev obj =
     (let str = getNestedString obj [''metadata'', ''creationTimestamp''] in
      if str = [] then zeroTime
      else if str = ''null'' then zeroTime
      else (case parseRFC3339 ev str of None \<Rightarrow> zeroTime | Some t \<Rightarrow> t))"

section \<open>Generic Rule Evaluator\<close>

text \<open>The Go pair \<^verbatim>\<open>(*Result, error)\<close> of the generic rules: \<open>Inr (Some r)\<close> is a verdict,
  \<open>Inr None\<close> is \<^verbatim>\<open>(nil, nil)\<close>, \<open>Inl\<close> an error.\<close>

definition checkGeneration :: "object \<Rightarrow> failure + Result option" where
  "checkGeneration obj =
     (case NestedInt64 obj [''metadata'', ''generation''] of
        Inl e \<Rightarrow> Inl (Err (Errorf ''cannot lookup metadata.generation from resource: '' (Some e)))
      | Inr None \<Rightarrow> Inr None
      | Inr (Some generation) \<Rightarrow>
          (case NestedInt64 obj [''status'', ''observedGeneration''] of
             Inl e \<Rightarrow>
               Inl (Err (Errorf ''cannot lookup status.observedGeneration from resource: '' (Some e)))
           | Inr None \<Rightarrow> Inr None
           | Inr (Some observedGeneration) \<Rightarrow>
               if observedGeneration \<noteq> generation
               then Inr (Some (inProgress (GetKind obj @ '' generation is '' @ fmt_d generation
                      @ '', but latest observed generation is '' @ fmt_d observedGeneration)))
               else Inr None))"

fun readyCondition :: "Condition list \<Rightarrow> Result option" where
  "readyCondition [] = None"
| "readyCondition (cond # conds) =
     (if ctype cond = ConditionTypeReady
      then (if cstatus cond = ConditionTrue then Some (ready (cmessage cond))
            else Some (inProgress (cmessage cond)))
      else readyCondition conds)"

definition checkGenericProperties :: "env \<Rightarrow> object \<Rightarrow> failure + Result option" where
  "checkGenericProperties ev obj =
     (case NestedString obj [''metadata'', ''deletionTimestamp''] of
        Inl e \<Rightarrow>
          Inl (Err (Errorf ''cannot lookup metadata.deletionTimestamp from resource: '' (Some e)))
      | Inr dt \<Rightarrow>
          if dt \<noteq> None \<and> dt \<noteq> Some [] then Inr (Some terminating)
          else (case checkGeneration obj of
                  Inl e \<Rightarrow> Inl e
                | Inr (Some res) \<Rightarrow> Inr (Some res)
                | Inr None \<Rightarrow>
                    (case GetObjectWithConditions ev obj of
                       Inl e \<Rightarrow> Inl e
                     | Inr conds \<Rightarrow> Inr (readyCondition conds))))"

section \<open>Kind-Specific Classifiers (core.go)\<close>

type_synonym GetConditionsFn = "env \<Rightarrow> object \<Rightarrow> failure + Result"

definition onDeleteUpdateStrategy :: string where
  "onDeleteUpdateStrategy = ''OnDelete''"

definition MaxInt32 :: goint where
  "MaxInt32 = 2147483647"

definition alwaysReady :: GetConditionsFn where
  "alwaysReady ev obj = Inr (ready ''ready'')"

definition stsConditions :: GetConditionsFn where
  "stsConditions ev obj =
     (let updateStrategy = GetStringField obj ''.spec.updateStrategy.type'' [] in
      if updateStrategy = onDeleteUpdateStrategy then Inr userManaged
      else
        let specReplicas = GetIntField obj ''.spec.replicas'' 1;
            readyReplicas = GetIntField obj ''.status.readyReplicas'' 0;
            currentReplicas = GetIntField obj ''.status.currentReplicas'' 0;
            updatedReplicas = GetIntField obj ''.status.updatedReplicas'' 0;
            statusReplicas = GetIntField obj ''.status.replicas'' 0;
            partition = GetIntField obj ''.spec.updateStrategy.rollingUpdate.partition'' (- 1)
        in
        if statusReplicas <s specReplicas
          then Inr (inProgress (''Replicas: '' @ fmt_d statusReplicas @ ''/'' @ fmt_d specReplicas))
        else if readyReplicas <s specReplicas
          then Inr (inProgress (''Ready: '' @ fmt_d readyReplicas @ ''/'' @ fmt_d specReplicas))
        else if specReplicas <s statusReplicas
          then Inr (inProgress (''Pending termination: '' @ fmt_d (statusReplicas - specReplicas)))
        else if partition \<noteq> - 1
          then (if updatedReplicas <s specReplicas - partition
                then Inr (inProgress (''updated: '' @ fmt_d updatedReplicas @ ''/''
                       @ fmt_d (specReplicas - partition)))
                else Inr (ready (''Partition rollout complete. updated: '' @ fmt_d updatedReplicas)))
        else if currentReplicas <s specReplicas
          then Inr (inProgress (''current: '' @ fmt_d currentReplicas @ ''/'' @ fmt_d specReplicas))
        else if GetStringField obj ''.status.currentRevision'' []
                \<noteq> GetStringField obj ''.status.updateRevision'' []
          then Inr (inProgress ''Waiting for updated revision to match current'')
        else Inr (ready (''All replicas scheduled as expected. Replicas: '' @ fmt_d statusReplicas)))"

text \<open>The loop over the conditions of a Deployment: \<open>Inl\<close> is the early return of
  \<^verbatim>\<open>failed(c.Message)\<close>, \<open>Inr\<close> the two flags after the last condition.\<close>

fun deploymentScan :: "Condition list \<Rightarrow> bool \<Rightarrow> bool \<Rightarrow> Result + bool \<times> bool" where
  "deploymentScan [] progressing available = Inr (progressing, available)"
| "deploymentScan (c # cs) progressing available =
     (if ctype c = ''Progressing'' then
        (if creason c = ''ProgressDeadlineExceeded'' then Inl (failed (cmessage c))
         else if cstatus c = ConditionTrue \<and> creason c = ''NewReplicaSetAvailable''
           then deploymentScan cs True available
         else deploymentScan cs progressing available)
      else if ctype c = ''Available'' then
        (if cstatus c = ConditionTrue then deploymentScan cs progressing True
         else deploymentScan cs progressing available)
      else deploymentScan cs progressing available)"

definition deploymentConditions :: GetConditionsFn where
  "deploymentConditions ev obj =
     (let progressDeadline = GetIntField obj ''.spec.progressDeadlineSeconds'' MaxInt32;
          progressing0 = (progressDeadline = MaxInt32)
      in
      case GetObjectWithConditions ev obj of
        Inl e \<Rightarrow> Inl e
      | Inr conds \<Rightarrow>
          (case deploymentScan conds progressing0 False of
             Inl res \<Rightarrow> Inr res
           | Inr (progressing, available) \<Rightarrow>
               let specReplicas = GetIntField obj ''.spec.replicas'' 1;
                   statusReplicas = GetIntField obj ''.status.replicas'' 0;
                   updatedReplicas = GetIntField obj ''.status.updatedReplicas'' 0;
                   readyReplicas = GetIntField obj ''.status.readyReplicas'' 0;
                   availableReplicas = GetIntField obj ''.status.availableReplicas'' 0
               in
               if statusReplicas <s specReplicas
                 then Inr (inProgress (''Replicas: '' @ fmt_d statusReplicas @ ''/''
                        @ fmt_d specReplicas))
               else if updatedReplicas <s specReplicas
                 then Inr (inProgress (''Updated: '' @ fmt_d updatedReplicas @ ''/''
                        @ fmt_d specReplicas))
               else if specReplicas <s statusReplicas
                 then Inr (inProgress (''Pending termination: ''
                        @ fmt_d (statusReplicas - specReplicas)))
               else if availableReplicas <s updatedReplicas
                 then Inr (inProgress (''Available: '' @ fmt_d availableReplicas @ ''/''
                        @ fmt_d updatedReplicas))
               else if readyReplicas <s specReplicas
                 then Inr (inProgress (''Ready: '' @ fmt_d readyReplicas @ ''/''
                        @ fmt_d specReplicas))
               else if \<not> progressing then Inr (inProgress ''ReplicaSet not Available'')
               else if \<not> available then Inr (inProgress ''Deployment not Available'')
               else Inr (ready (''Deployment is available. Replicas: '' @ fmt_d statusReplicas))))"

fun replicaFailure :: "Condition list \<Rightarrow> bool" where
  "replicaFailure [] = False"
| "replicaFailure (c # cs) =
     (if ctype c = ''ReplicaFailure'' \<and> cstatus c = ConditionTrue then True
      else replicaFailure cs)"

definition replicasetConditions :: GetConditionsFn where
  "replicasetConditions ev obj =
     (case GetObjectWithConditions ev obj of
        Inl e \<Rightarrow> Inl e
      | Inr conds \<Rightarrow>
          if replicaFailure conds then Inr (inProgress ''Replica Failure condition. Check Pods'')
          else
            let specReplicas = GetIntField obj ''.spec.replicas'' 1;
                statusReplicas = GetIntField obj ''.status.replicas'' 0;
                readyReplicas = GetIntField obj ''.status.readyReplicas'' 0;
                availableReplicas = GetIntField obj ''.status.availableReplicas'' 0;
                fullyLabelledReplicas = GetIntField obj ''.status.fullyLabeledReplicas'' 0
            in
            if fullyLabelledReplicas <s specReplicas
              then Inr (inProgress (''Labelled: '' @ fmt_d fullyLabelledReplicas @ ''/''
                     @ fmt_d specReplicas))
            else if availableReplicas <s specReplicas
              then Inr (inProgress (''Available: '' @ fmt_d availableReplicas @ ''/''
                     @ fmt_d specReplicas))
            else if readyReplicas <s specReplicas
              then Inr (inProgress (''Ready: '' @ fmt_d readyReplicas @ ''/'' @ fmt_d specReplicas))
            else if specReplicas <s statusReplicas
              then Inr (inProgress (''Pending termination: ''
                     @ fmt_d (statusReplicas - specReplicas)))
            else Inr (ready (''ReplicaSet is available. Replicas: '' @ fmt_d statusReplicas)))"

definition checkGenerationSet :: "object \<Rightarrow> failure + Result option" where
  "checkGenerationSet obj =
     (case NestedInt64 obj [''metadata'', ''generation''] of
        Inl e \<Rightarrow> Inl (Err (Errorf ''looking up metadata.generation from resource: '' (Some e)))
      | Inr None \<Rightarrow> Inr (Some (inProgress (GetKind obj @ '' metadata.generation not found'')))
      | Inr (Some g) \<Rightarrow>
          (case NestedInt64 obj [''status'', ''observedGeneration''] of
             Inl e \<Rightarrow>
               Inl (Err (Errorf ''looking up status.observedGeneration from resource: '' (Some e)))
           | Inr None \<Rightarrow>
               Inr (Some (inProgress (GetKind obj @ '' status.observedGeneration not found'')))
           | Inr (Some og) \<Rightarrow> Inr None))"

definition daemonsetConditions :: GetConditionsFn where
  "daemonsetConditions ev obj =
     (case checkGenerationSet obj of
        Inl e \<Rightarrow> Inl e
      | Inr (Some res) \<Rightarrow> Inr res
      | Inr None \<Rightarrow>
          let desiredNumberScheduled = GetIntField obj ''.status.desiredNumberScheduled'' (- 1);
              currentNumberScheduled = GetIntField obj ''.status.currentNumberScheduled'' 0;
              updatedNumberScheduled = GetIntField obj ''.status.updatedNumberScheduled'' 0;
              numberAvailable = GetIntField obj ''.status.numberAvailable'' 0;
              numberReady = GetIntField obj ''.status.numberReady'' 0
          in
          if desiredNumberScheduled = - 1
            then Inr (inProgress ''Missing .status.desiredNumberScheduled'')
          else if currentNumberScheduled <s desiredNumberScheduled
            then Inr (inProgress (''Current: '' @ fmt_d currentNumberScheduled @ ''/''
                   @ fmt_d desiredNumberScheduled))
          else if updatedNumberScheduled <s desiredNumberScheduled
            then Inr (inProgress (''Updated: '' @ fmt_d updatedNumberScheduled @ ''/''
                   @ fmt_d desiredNumberScheduled))
          else if numberAvailable <s desiredNumberScheduled
            then Inr (inProgress (''Available: '' @ fmt_d numberAvailable @ ''/''
                   @ fmt_d desiredNumberScheduled))
          else if numberReady <s desiredNumberScheduled
            then Inr (inProgress (''Ready: '' @ fmt_d numberReady @ ''/''
                   @ fmt_d desiredNumberScheduled))
          else Inr (ready (''All replicas scheduled as expected. Replicas: ''
                 @ fmt_d desiredNumberScheduled)))"

definition pvcConditions :: GetConditionsFn where
  "pvcConditions ev obj =
     (let phase = GetStringField obj ''.status.phase'' ''unknown'' in
      if phase \<noteq> ''Bound'' then Inr (inProgress (''PVC is not Bound. phase: '' @ phase))
      else Inr (ready ''PVC is bound''))"

text \<open>An unchecked type assertion \<^verbatim>\<open>x.(T)\<close> panics when the dynamic type is not \<^verbatim>\<open>T\<close>.\<close>

definition assertMap :: "val \<Rightarrow> failure + object" where
  "assertMap v = (case v of VMap m \<Rightarrow> Inr m
                  | _ \<Rightarrow> Inl (Panic ''interface conversion: not map[string]interface {}''))"

definition assertString :: "val \<Rightarrow> failure + string" where
  "assertString v = (case v of VString s \<Rightarrow> Inr s
                     | _ \<Rightarrow> Inl (Panic ''interface conversion: not string''))"

text \<open>The loop of \<^verbatim>\<open>getCrashLoopingContainers\<close> over the container statuses, with the
  names collected so far; every \<^verbatim>\<open>continue\<close> goes on with the rest.\<close>

fun crashLoopScan :: "val list \<Rightarrow> string list \<Rightarrow> failure + string list" where
  "crashLoopScan [] containerNames = Inr containerNames"
| "crashLoopScan (item # items) containerNames =
     (case assertMap item of Inl p \<Rightarrow> Inl p | Inr cs \<Rightarrow>
     (case map_of cs ''name'' of None \<Rightarrow> crashLoopScan items containerNames | Some n \<Rightarrow>
     (case assertString n of Inl p \<Rightarrow> Inl p | Inr name \<Rightarrow>
     (case map_of cs ''state'' of None \<Rightarrow> crashLoopScan items containerNames | Some s \<Rightarrow>
     (case assertMap s of Inl p \<Rightarrow> Inl p | Inr state \<Rightarrow>
     (case map_of state ''waiting'' of None \<Rightarrow> crashLoopScan items containerNames | Some ws \<Rightarrow>
     (case assertMap ws of Inl p \<Rightarrow> Inl p | Inr waitingState \<Rightarrow>
     (case map_of waitingState ''reason'' of None \<Rightarrow> crashLoopScan items containerNames
      | Some r \<Rightarrow>
     (case assertString r of Inl p \<Rightarrow> Inl p | Inr reason \<Rightarrow>
        if reason = ''CrashLoopBackOff'' then crashLoopScan items (containerNames @ [name])
        else crashLoopScan items containerNames)))))))))"

definition getCrashLoopingContainers :: "object \<Rightarrow> failure + string list \<times> bool" where
  "getCrashLoopingContainers obj =
     (case NestedSlice obj [''status'', ''containerStatuses''] of
        Inl e \<Rightarrow> Inl e
      | Inr None \<Rightarrow> Inr ([], False)
      | Inr (Some css) \<Rightarrow>
          (case crashLoopScan css [] of
             Inl p \<Rightarrow> Inl p
           | Inr containerNames \<Rightarrow>
               if length containerNames > 0 then Inr (containerNames, True)
               else Inr (containerNames, False)))"

definition podConditions :: GetConditionsFn where
  "podConditions ev obj =
     (case GetObjectWithConditions ev obj of
        Inl e \<Rightarrow> Inl e
      | Inr conds \<Rightarrow>
          let phase = GetStringField obj ''.status.phase'' [] in
          if phase = ''Succeeded'' then Inr (ready ''Pod completed'')
          else if phase = ''Failed'' then Inr (failed ''Pod failed'')
          else if phase = ''Running'' then
            (if hasConditionWithStatus conds ''Ready'' ConditionTrue then Inr (ready ''Pod ready'')
             else (case getCrashLoopingContainers obj of
                     Inl e \<Rightarrow> Inl e
                   | Inr (containerNames, isCrashLooping) \<Rightarrow>
                       if isCrashLooping
                       then Inr (failed (''Containers in CrashLoop state: ''
                              @ join_comma containerNames))
                       else Inr (inProgress ''Pod is running but is not Ready'')))
          else if phase = ''Pending'' then
            (case getConditionWithStatus conds ''PodScheduled'' ConditionFalse of
               None \<Rightarrow> Inr (inProgress ''Pod is in the Pending phase'')
             | Some c \<Rightarrow>
                 if creason c = ''Unschedulable'' then
                   (if now ev - ScheduleWindow < GetCreationTimestamp ev obj
                    then Inr (inProgress ''Pod has not been scheduled'')
                    else Inr (failed ''Pod could not be scheduled''))
                 else Inr (inProgress ''Pod is in the Pending phase''))
          else if phase = [] then Inr (inProgress ''Pod phase not available'')
          else Inl (Err (Errorf (''unknown phase '' @ phase) None)))"

definition pdbConditions :: GetConditionsFn where
  "pdbConditions ev obj = Inr (ready ''AllowedDisruptions has been computed.'')"

fun jobScan :: "Condition list \<Rightarrow> goint \<Rightarrow> goint \<Rightarrow> goint \<Rightarrow> Result option" where
  "jobScan [] succeeded podFailed completions = None"
| "jobScan (c # cs) succeeded podFailed completions =
     (if ctype c = ''Complete'' then
        (if cstatus c = ConditionTrue
         then Some (ready (''Job Completed. succeeded: '' @ fmt_d succeeded @ ''/''
                @ fmt_d completions))
         else jobScan cs succeeded podFailed completions)
      else if ctype c = ''Failed'' then
        (if cstatus c = ConditionTrue
         then Some (failed (''Job Failed. failed: '' @ fmt_d podFailed @ ''/''
                @ fmt_d completions))
         else jobScan cs succeeded podFailed completions)
      else jobScan cs succeeded podFailed completions)"

definition jobConditions :: GetConditionsFn where
  "jobConditions ev obj =
     (let parallelism = GetIntField obj ''.spec.parallelism'' 1;
          completions = GetIntField obj ''.spec.completions'' parallelism;
          succeeded = GetIntField obj ''.status.succeeded'' 0;
          active = GetIntField obj ''.status.active'' 0;
          podFailed = GetIntField obj ''.status.failed'' 0;
          starttime = GetStringField obj ''.status.startTime'' []
      in
      case GetObjectWithConditions ev obj of
        Inl e \<Rightarrow> Inl e
      | Inr conds \<Rightarrow>
          (case jobScan conds succeeded podFailed completions of
             Some res \<Rightarrow> Inr res
           | None \<Rightarrow>
               if starttime = [] then Inr (inProgress ''Job not started'')
               else Inr (inProgress (''Job in progress. success:'' @ fmt_d succeeded
                      @ '', active: '' @ fmt_d active @ '', failed: '' @ fmt_d podFailed))))"

definition serviceConditions :: GetConditionsFn where
  "serviceConditions ev obj =
     (let specType = GetStringField obj ''.spec.type'' ''ClusterIP'';
          specClusterIP = GetStringField obj ''.spec.clusterIP'' []
      in
      if specType = ''LoadBalancer'' \<and> specClusterIP = []
      then Inr (inProgress ''ClusterIP not set. Service type: LoadBalancer'')
      else Inr (ready ''service ready''))"

fun crdScan :: "Condition list \<Rightarrow> Result option" where
  "crdScan [] = None"
| "crdScan (c # cs) =
     (if ctype c = ''NamesAccepted'' \<and> cstatus c = ConditionFalse then Some (failed (cmessage c))
      else if ctype c = ''Established'' \<and> cstatus c = ConditionFalse \<and> creason c \<noteq> ''Installing''
        then Some (failed (cmessage c))
      else if ctype c = ''Established'' \<and> cstatus c = ConditionTrue
        then Some (ready ''CRD established'')
      else crdScan cs)"

definition crdConditions :: GetConditionsFn where
  "crdConditions ev obj =
     (case GetObjectWithConditions ev obj of
        Inl e \<Rightarrow> Inl e
      | Inr conds \<Rightarrow>
          (case crdScan conds of
             Some res \<Rightarrow> Inr res
           | None \<Rightarrow> Inr (inProgress ''installing'')))"

text \<open>The registry, keyed by group and kind.\<close>

definition legacyTypes :: "string \<rightharpoonup> GetConditionsFn" where
  "legacyTypes = map_of
     [(''Service'', serviceConditions),
      (''Pod'', podConditions),
      (''Secret'', alwaysReady),
      (''PersistentVolumeClaim'', pvcConditions),
      (''apps/StatefulSet'', stsConditions),
      (''apps/DaemonSet'', daemonsetConditions),
      (''extensions/DaemonSet'', daemonsetConditions),
      (''apps/Deployment'', deploymentConditions),
      (''extensions/Deployment'', deploymentConditions),
      (''apps/ReplicaSet'', replicasetConditions),
      (''extensions/ReplicaSet'', replicasetConditions),
      (''policy/PodDisruptionBudget'', pdbConditions),
      (''batch/CronJob'', alwaysReady),
      (''ConfigMap'', alwaysReady),
      (''batch/Job'', jobConditions),
      (''apiextensions.k8s.io/CustomResourceDefinition'', crdConditions)]"

definition registryKey :: "object \<Rightarrow> string" where
  "registryKey obj =
     (case GroupVersionKind obj of (g, v, k) \<Rightarrow> if g = [] then k else g @ ''/'' @ k)"

definition GetLegacyConditionsFn :: "object \<Rightarrow> GetConditionsFn option" where
  "GetLegacyConditionsFn obj = legacyTypes (registryKey obj)"

section \<open>Status Classifier (facade)\<close>

definition Compute :: "env \<Rightarrow> object \<Rightarrow> failure + Result" where
  "Compute ev obj =
     (case checkGenericProperties ev obj of
        Inl e \<Rightarrow> Inl e
      | Inr (Some res) \<Rightarrow> Inr res
      | Inr None \<Rightarrow>
          (case GetLegacyConditionsFn obj of
             Some fn \<Rightarrow> fn ev obj
           | None \<Rightarrow> Inr noStatusInfo))"

section \<open>Convergence Poller\<close>

text \<open>
  The poller talks to the cluster and sleeps. The cluster is an oracle: \<open>responses w n\<close>
  is what the \<open>n\<close>-th call of \<^verbatim>\<open>client.Get\<close> returns and \<open>envAt w n\<close> the clock read by
  the classification that follows it. What the poller does to the outside is kept as a
  trace of events, oldest first.
\<close>

datatype response = GetErr goerror | GetOk object

datatype event =
    Slept int
  | Fetched nat
  | Logged string
  | Printed string string int nat nat

record world =
  responses :: "nat \<Rightarrow> response"
  envAt :: "nat \<Rightarrow> env"

record pstate =
  calls :: nat
  trace :: "event list"

definition maxRetries :: nat where "maxRetries = 5"
definition initialDelay :: int where "initialDelay = 1000000000"
definition initialGetDelay :: int where "initialGetDelay = 500000000"

text \<open>\<^verbatim>\<open>apierrors.IsNotFound\<close> looks through \<^verbatim>\<open>%w\<close> wrappers.\<close>

fun IsNotFound :: "goerror \<Rightarrow> bool" where
  "IsNotFound (NotFoundError m) = True"
| "IsNotFound (Errorf m (Some e)) = IsNotFound e"
| "IsNotFound e = False"

definition clientGet :: "world \<Rightarrow> pstate \<Rightarrow> response \<times> pstate" where
  "clientGet w st =
     (responses w (calls st),
      st\<lparr>calls := Suc (calls st), trace := trace st @ [Fetched (calls st)]\<rparr>)"

definition logError :: "string \<Rightarrow> pstate \<Rightarrow> pstate" where
  "logError msg st = st\<lparr>trace := trace st @ [Logged msg]\<rparr>"

definition sleep :: "int \<Rightarrow> pstate \<Rightarrow> pstate" where
  "sleep d st = st\<lparr>trace := trace st @ [Slept d]\<rparr>"

text \<open>\<^verbatim>\<open>getStatus\<close> returns the object (if any), whether to continue, and an error (if
  any); a panic of the classifier passes through as \<open>Inl\<close>.\<close>

definition getStatus ::
  "world \<Rightarrow> object \<Rightarrow> bool \<Rightarrow> nat \<Rightarrow> pstate
     \<Rightarrow> (string + object option \<times> bool \<times> goerror option) \<times> pstate" where
  "getStatus w u delete attempt st =
     (case clientGet w st of
        (GetErr err, st1) \<Rightarrow>
          if IsNotFound err then
            (if delete then (Inr (None, False, None), st1)
             else (Inr (None, True, None), st1))
          else (Inr (None, True, Some err), logError ''cannot get object'' st1)
      | (GetOk newObj, st1) \<Rightarrow>
          (case Compute (envAt w (calls st)) newObj of
             Inl (Panic p) \<Rightarrow> (Inl p, st1)
           | Inl (Err err) \<Rightarrow>
               (Inr (Some newObj, True, Some err), logError ''cannot get object'' st1)
           | Inr result \<Rightarrow>
               if Status result = ConditionFalse then
                 (if Reason result = ReasonFailed then
                    (Inr (Some newObj, False, Some (Errorf (''failed: '' @ Message result) None)),
                     logError (''failed: '' @ Message result) st1)
                  else (Inr (Some newObj, True, None), st1))
               else if Reason result = ReasonNoStatusInfo \<and> int attempt < int maxRetries - 2
                 then (Inr (Some newObj, True, None), st1)
               else (Inr (Some newObj, False, None), st1)))"

definition gvkString :: "object \<Rightarrow> string" where
  "gvkString u = (case GroupVersionKind u of (g, v, k) \<Rightarrow> g @ ''/'' @ v @ '', Kind='' @ k)"

definition nsnString :: "object \<Rightarrow> string" where
  "nsnString u = GetNamespace u @ ''/'' @ GetName u"

text \<open>
  The retry loop. The variable \<open>err\<close> is the one declared before the loop
  (\<^verbatim>\<open>var err error\<close>); inside the body \<^verbatim>\<open>newObj, cont, err := getStatus(...)\<close>
  declares a new \<open>err\<close> in the scope of the body, so the outer one is never assigned.
  The backoff \<^verbatim>\<open>float64(initialDelay) * math.Pow(backoffFactor, float64(attempt))\<close> is
  exact in float64 for these constants and at most five attempts.
\<close>

function retryLoop ::
  "world \<Rightarrow> object \<Rightarrow> bool \<Rightarrow> goerror option \<Rightarrow> nat \<Rightarrow> pstate
     \<Rightarrow> (string + object option \<times> goerror option) \<times> pstate" where
  "retryLoop w u delete err attempt st =
     (if attempt < maxRetries then
        (case getStatus w u delete attempt st of
           (Inl p, st1) \<Rightarrow> (Inl p, st1)
         | (Inr (newObj, cont, err'), st1) \<Rightarrow>
             if \<not> cont then (Inr (newObj, err'), st1)
             else
               let backoffDuration = initialDelay * 2 ^ attempt;
                   st2 = st1\<lparr>trace := trace st1
                           @ [Printed (gvkString u) (nsnString u) backoffDuration
                                (attempt + 1) maxRetries]\<rparr>;
                   st3 = sleep backoffDuration st2
               in retryLoop w u delete err (attempt + 1) st3)
      else
        (Inr (None, Some (Errorf (''getStatus gvk '' @ gvkString u @ '' nsn '' @ nsnString u
                 @ '' after '' @ showInt (int maxRetries) @ '' retries: ''
                 @ (case err of None \<Rightarrow> ''%!w(<nil>)'' | Some e \<Rightarrow> []))
               err)), st))"
  by pat_completeness auto
termination
  by (relation "measure (\<lambda>(w, u, delete, err, attempt, st). maxRetries - attempt)") auto

declare retryLoop.simps [simp del]

definition getStatusWithRetries ::
  "world \<Rightarrow> object \<Rightarrow> bool \<Rightarrow> (string + object option \<times> goerror option) \<times> pstate" where
  "getStatusWithRetries w u delete =
     retryLoop w u delete None 0 (sleep initialGetDelay \<lparr>calls = 0, trace = []\<rparr>)"

section \<open>Properties to be verified\<close>

text \<open>The invariant of a verdict: the status is True exactly for the reasons Ready,
  NoStatusInfo and UserManaged, and False exactly for Terminating, InProgress and Failed.\<close>

definition Result_inv :: "Result \<Rightarrow> bool" where
  "Result_inv r =
     ((Status r = ConditionTrue)
        = (Reason r \<in> {ReasonReady, ReasonNoStatusInfo, ReasonUserManaged})
      \<and> (Status r = ConditionFalse)
        = (Reason r \<in> {ReasonTerminating, ReasonInProgress, ReasonFailed}))"

text \<open>What "no generic rule yields a verdict" means on the tree: the deletion timestamp is
  absent or empty, the generations (where both are present) agree, and the conditions
  decode without one of type Ready.\<close>

definition notDeleting :: "object \<Rightarrow> bool" where
  "notDeleting obj =
     (NestedString obj [''metadata'', ''deletionTimestamp''] = Inr None
      \<or> NestedString obj [''metadata'', ''deletionTimestamp''] = Inr (Some []))"

definition noGenerationMismatch :: "object \<Rightarrow> bool" where
  "noGenerationMismatch obj =
     (case NestedInt64 obj [''metadata'', ''generation''] of
        Inl e \<Rightarrow> False
      | Inr None \<Rightarrow> True
      | Inr (Some g) \<Rightarrow>
          (case NestedInt64 obj [''status'', ''observedGeneration''] of
             Inl e \<Rightarrow> False
           | Inr None \<Rightarrow> True
           | Inr (Some og) \<Rightarrow> og = g))"

definition noReadyCondition :: "env \<Rightarrow> object \<Rightarrow> bool" where
  "noReadyCondition ev obj =
     (case GetObjectWithConditions ev obj of
        Inl e \<Rightarrow> False
      | Inr conds \<Rightarrow> list_all (\<lambda>c. ctype c \<noteq> ConditionTypeReady) conds)"

text \<open>The field at a path holds a native integer (int, int32 or int64) of value \<open>n\<close>.\<close>

definition holdsInt :: "object \<Rightarrow> string list \<Rightarrow> goint \<Rightarrow> bool" where
  "holdsInt obj path n =
     (case NestedFieldNoCopy (VMap obj) path of
        Inr (Some (VInt v)) \<Rightarrow> v = n
      | Inr (Some (VInt32 v)) \<Rightarrow> scast v = n
      | Inr (Some (VInt64 v)) \<Rightarrow> v = n
      | _ \<Rightarrow> False)"




subsection \<open>Sample snapshots\<close>

text \<open>The Deployment of the repository's test of \<^verbatim>\<open>Compute\<close>.\<close>

definition deploymentManifest :: object where
  "deploymentManifest =
     [(''apiVersion'', VString ''apps/v1''),
      (''kind'', VString ''Deployment''),
      (''metadata'', VMap [(''name'', VString ''test''), (''generation'', VInt64 1),
                          (''namespace'', VString ''qual'')]),
      (''status'', VMap
         [(''observedGeneration'', VInt64 1),
          (''updatedReplicas'', VInt64 1),
          (''readyReplicas'', VInt64 1),
          (''availableReplicas'', VInt64 1),
          (''replicas'', VInt64 1),
          (''conditions'', VSlice
             [VMap [(''type'', VString ''Progressing''), (''status'', VString ''True''),
                    (''reason'', VString ''NewReplicaSetAvailable'')],
              VMap [(''type'', VString ''Available''), (''status'', VString ''True'')]])])]"

text \<open>Two Deployments with one replica wanted, the four counts at 1, matching generations
  and the conditions Progressing=True/NewReplicaSetAvailable and Available=True: one is
  being deleted, the other has a condition Ready=False besides.\<close>

definition deletingAvailableDeployment :: object where
  "deletingAvailableDeployment =
     [(''apiVersion'', VString ''apps/v1''),
      (''kind'', VString ''Deployment''),
      (''metadata'', VMap [(''name'', VString ''test''), (''generation'', VInt64 1),
                          (''namespace'', VString ''qual''),
                          (''deletionTimestamp'', VString ''2024-03-29T00:58:41Z'')]),
      (''spec'', VMap [(''replicas'', VInt64 1)]),
      (''status'', VMap
         [(''observedGeneration'', VInt64 1),
          (''updatedReplicas'', VInt64 1),
          (''readyReplicas'', VInt64 1),
          (''availableReplicas'', VInt64 1),
          (''replicas'', VInt64 1),
          (''conditions'', VSlice
             [VMap [(''type'', VString ''Progressing''), (''status'', VString ''True''),
                    (''reason'', VString ''NewReplicaSetAvailable'')],
              VMap [(''type'', VString ''Available''), (''status'', VString ''True'')]])])]"

definition unreadyAvailableDeployment :: object where
  "unreadyAvailableDeployment =
     [(''apiVersion'', VString ''apps/v1''),
      (''kind'', VString ''Deployment''),
      (''metadata'', VMap [(''name'', VString ''test''), (''generation'', VInt64 1),
                          (''namespace'', VString ''qual'')]),
      (''spec'', VMap [(''replicas'', VInt64 1)]),
      (''status'', VMap
         [(''observedGeneration'', VInt64 1),
          (''updatedReplicas'', VInt64 1),
          (''readyReplicas'', VInt64 1),
          (''availableReplicas'', VInt64 1),
          (''replicas'', VInt64 1),
          (''conditions'', VSlice
             [VMap [(''type'', VString ''Progressing''), (''status'', VString ''True''),
                    (''reason'', VString ''NewReplicaSetAvailable'')],
              VMap [(''type'', VString ''Available''), (''status'', VString ''True'')],
              VMap [(''type'', VString ''Ready''), (''status'', VString ''False''),
                    (''message'', VString ''waiting'')]])])]"

text \<open>The same Deployment with its replica counts held as float64.\<close>

definition deploymentFloats :: object where
  "deploymentFloats =
     [(''apiVersion'', VString ''apps/v1''),
      (''kind'', VString ''Deployment''),
      (''status'', VMap
         [(''updatedReplicas'', VFloat64 (Float64 1 0)),
          (''readyReplicas'', VFloat64 (Float64 1 0)),
          (''availableReplicas'', VFloat64 (Float64 1 0)),
          (''replicas'', VFloat64 (Float64 1 0))])]"

text \<open>A Deployment that is being deleted.\<close>

definition deletingDeployment :: object where
  "deletingDeployment =
     [(''apiVersion'', VString ''apps/v1''),
      (''kind'', VString ''Deployment''),
      (''metadata'', VMap [(''name'', VString ''test''),
                          (''deletionTimestamp'', VString ''2024-03-29T00:58:41Z'')]),
      (''status'', VMap [(''replicas'', VInt64 1)])]"

text \<open>A resource of a kind without a classifier and without status.\<close>

definition widgetManifest :: object where
  "widgetManifest =
     [(''apiVersion'', VString ''example.dev/v1''),
      (''kind'', VString ''Widget''),
      (''metadata'', VMap [(''name'', VString ''w1''), (''generation'', VInt64 3)])]"



definition sampleParse :: "string \<Rightarrow> time option" where
  "sampleParse str =
     (if str = ''2024-03-29T00:58:41Z'' then Some (1711673921 * 1000000000) else None)"

definition podCreated :: time where
  "podCreated = 1711673921 * 1000000000"

definition clockAfter :: "int \<Rightarrow> env" where
  "clockAfter secs =
     \<lparr>now = podCreated + secs * 1000000000, parseRFC3339 = sampleParse,
      converter = FromUnstructured\<rparr>"

text \<open>A running Pod whose only container status has a number as its name.\<close>

definition malformedPod :: object where
  "malformedPod =
     [(''apiVersion'', VString ''v1''),
      (''kind'', VString ''Pod''),
      (''status'', VMap
         [(''phase'', VString ''Running''),
          (''containerStatuses'', VSlice [VMap [(''name'', VInt64 7)]])])]"

text \<open>Two clusters: one whose every read fails with a transport error, one that no longer
  has the resource.\<close>

definition refusingCluster :: world where
  "refusingCluster =
     \<lparr>responses = (\<lambda>n. GetErr (ClientError ''connection refused'')),
      envAt = (\<lambda>n. clockAfter 0)\<rparr>"

definition emptyCluster :: world where
  "emptyCluster =
     \<lparr>responses = (\<lambda>n. GetErr (NotFoundError ''deployments.apps test not found'')),
      envAt = (\<lambda>n. clockAfter 0)\<rparr>"

text \<open>The error that \<^verbatim>\<open>getStatusWithRetries\<close> returns after the last attempt when the
  variable \<open>err\<close> of the function scope is still nil.\<close>

definition exhausted :: "object \<Rightarrow> goerror" where
  "exhausted u = Errorf (''getStatus gvk '' @ gvkString u @ '' nsn '' @ nsnString u
                 @ '' after '' @ showInt (int maxRetries) @ '' retries: %!w(<nil>)'') None"

section \<open>Auxiliary facts\<close>

subsection \<open>Paths, integers and formatting\<close>

lemma fmt_d_1: "fmt_d 1 = ''1''"
  by (simp add: fmt_d_def showInt_def showNat.simps)

lemma path_fields_simps:
  "path_fields ''.spec.replicas'' = [''spec'', ''replicas'']"
  "path_fields ''.status.replicas'' = [''status'', ''replicas'']"
  "path_fields ''.status.updatedReplicas'' = [''status'', ''updatedReplicas'']"
  "path_fields ''.status.readyReplicas'' = [''status'', ''readyReplicas'']"
  "path_fields ''.status.availableReplicas'' = [''status'', ''availableReplicas'']"
  "path_fields ''.status.phase'' = [''status'', ''phase'']"
  by (simp_all add: path_fields_def)

lemma GetIntField_holdsInt: "holdsInt obj (path_fields p) n \<Longrightarrow> GetIntField obj p d = n"
  by (auto simp: holdsInt_def GetIntField_def split: sum.splits option.splits val.splits)

lemma GetIntField_unset:
  "NestedFieldNoCopy (VMap obj) (path_fields p) = Inr None \<Longrightarrow> GetIntField obj p d = d"
  by (simp add: GetIntField_def)

lemma showInt_5: "showInt (int maxRetries) = ''5''"
  by (simp add: maxRetries_def showInt_def showNat.simps)

subsection \<open>Every constructor of a verdict keeps the invariant\<close>

lemma inv_ready: "Result_inv (ready m)"
  and inv_noStatusInfo: "Result_inv noStatusInfo"
  and inv_userManaged: "Result_inv userManaged"
  and inv_inProgress: "Result_inv (inProgress m)"
  and inv_terminating: "Result_inv terminating"
  and inv_failed: "Result_inv (failed m)"
  by (simp_all add: Result_inv_def ready_def noStatusInfo_def userManaged_def inProgress_def
      terminating_def failed_def ConditionTrue_def ConditionFalse_def ReasonReady_def
      ReasonNoStatusInfo_def ReasonUserManaged_def ReasonTerminating_def ReasonInProgress_def
      ReasonFailed_def)

lemmas inv_intros = inv_ready inv_noStatusInfo inv_userManaged inv_inProgress inv_terminating inv_failed

lemma readyCondition_inv: "readyCondition cs = Some r \<Longrightarrow> Result_inv r"
  by (induction cs) (auto simp: inv_intros split: if_splits)

lemma checkGeneration_inv: "checkGeneration obj = Inr (Some r) \<Longrightarrow> Result_inv r"
  by (auto simp: checkGeneration_def inv_intros split: sum.splits option.splits if_splits)

lemma checkGenericProperties_inv: "checkGenericProperties ev obj = Inr (Some r) \<Longrightarrow> Result_inv r"
  by (auto simp: checkGenericProperties_def inv_intros split: sum.splits option.splits if_splits
      dest: checkGeneration_inv readyCondition_inv)

lemma alwaysReady_inv: "alwaysReady ev obj = Inr r \<Longrightarrow> Result_inv r"
  by (auto simp: alwaysReady_def inv_intros)

lemma stsConditions_inv: "stsConditions ev obj = Inr r \<Longrightarrow> Result_inv r"
  by (auto simp: stsConditions_def Let_def inv_intros split: if_splits)

lemma deploymentScan_inv: "deploymentScan cs p a = Inl r \<Longrightarrow> Result_inv r"
  by (induction cs p a rule: deploymentScan.induct) (auto simp: inv_intros split: if_splits)

lemma deploymentConditions_inv: "deploymentConditions ev obj = Inr r \<Longrightarrow> Result_inv r"
  by (auto simp: deploymentConditions_def Let_def inv_intros split: sum.splits prod.splits if_splits
      dest: deploymentScan_inv)

lemma replicasetConditions_inv: "replicasetConditions ev obj = Inr r \<Longrightarrow> Result_inv r"
  by (auto simp: replicasetConditions_def Let_def inv_intros split: sum.splits if_splits)

lemma checkGenerationSet_inv: "checkGenerationSet obj = Inr (Some r) \<Longrightarrow> Result_inv r"
  by (auto simp: checkGenerationSet_def inv_intros split: sum.splits option.splits)

lemma daemonsetConditions_inv: "daemonsetConditions ev obj = Inr r \<Longrightarrow> Result_inv r"
  by (auto simp: daemonsetConditions_def Let_def inv_intros split: sum.splits option.splits if_splits
      dest: checkGenerationSet_inv)

lemma pvcConditions_inv: "pvcConditions ev obj = Inr r \<Longrightarrow> Result_inv r"
  by (auto simp: pvcConditions_def Let_def inv_intros split: if_splits)

lemma podConditions_inv: "podConditions ev obj = Inr r \<Longrightarrow> Result_inv r"
  by (auto simp: podConditions_def Let_def inv_intros split: sum.splits option.splits prod.splits if_splits)

lemma pdbConditions_inv: "pdbConditions ev obj = Inr r \<Longrightarrow> Result_inv r"
  by (auto simp: pdbConditions_def inv_intros)

lemma jobScan_inv: "jobScan cs s f c = Some r \<Longrightarrow> Result_inv r"
  by (induction cs) (auto simp: inv_intros split: if_splits)

lemma jobConditions_inv: "jobConditions ev obj = Inr r \<Longrightarrow> Result_inv r"
  by (auto simp: jobConditions_def Let_def inv_intros split: sum.splits option.splits if_splits
      dest: jobScan_inv)

lemma serviceConditions_inv: "serviceConditions ev obj = Inr r \<Longrightarrow> Result_inv r"
  by (auto simp: serviceConditions_def Let_def inv_intros split: if_splits)

lemma crdScan_inv: "crdScan cs = Some r \<Longrightarrow> Result_inv r"
  by (induction cs) (auto simp: inv_intros split: if_splits)

lemma crdConditions_inv: "crdConditions ev obj = Inr r \<Longrightarrow> Result_inv r"
  by (auto simp: crdConditions_def inv_intros split: sum.splits option.splits dest: crdScan_inv)

lemmas kind_inv = alwaysReady_inv stsConditions_inv deploymentConditions_inv
  replicasetConditions_inv daemonsetConditions_inv pvcConditions_inv podConditions_inv
  pdbConditions_inv jobConditions_inv serviceConditions_inv crdConditions_inv

lemma legacyTypes_inv: "legacyTypes key = Some fn \<Longrightarrow> fn ev obj = Inr r \<Longrightarrow> Result_inv r"
  by (auto simp: legacyTypes_def split: if_splits dest: kind_inv)

subsection \<open>Generic rules that yield no verdict\<close>

lemma readyCondition_None:
  "list_all (\<lambda>c. ctype c \<noteq> ConditionTypeReady) conds \<Longrightarrow> readyCondition conds = None"
  by (induction conds) auto

lemma no_generic_verdict:
  assumes "notDeleting obj" "noGenerationMismatch obj" "noReadyCondition ev obj"
  shows "checkGenericProperties ev obj = Inr None"
proof -
  have g: "checkGeneration obj = Inr None"
    using assms(2)
    by (auto simp: noGenerationMismatch_def checkGeneration_def split: sum.splits option.splits)
  obtain conds where c: "GetObjectWithConditions ev obj = Inr conds"
    and r: "readyCondition conds = None"
    using assms(3) by (auto simp: noReadyCondition_def readyCondition_None split: sum.splits)
  show ?thesis
    using assms(1) g c r by (auto simp: checkGenericProperties_def notDeleting_def)
qed

subsection \<open>Conditions, one per type\<close>



lemma deploymentScan_flags:
  assumes "\<forall>c \<in> set cs. ctype c = ''Progressing'' \<longrightarrow> creason c \<noteq> ''ProgressDeadlineExceeded''"
  shows "deploymentScan cs p a =
           Inr (p \<or> (\<exists>c \<in> set cs. ctype c = ''Progressing'' \<and> cstatus c = ConditionTrue
                        \<and> creason c = ''NewReplicaSetAvailable''),
                a \<or> (\<exists>c \<in> set cs. ctype c = ''Available'' \<and> cstatus c = ConditionTrue))"
  using assms by (induction cs arbitrary: p a) auto

lemma one_per_type:
  "distinct (map ctype cs) \<Longrightarrow> c \<in> set cs \<Longrightarrow> c' \<in> set cs \<Longrightarrow> ctype c = ctype c' \<Longrightarrow> c = c'"
  by (auto simp: distinct_map dest: inj_onD)

lemma legacyTypes_Deployment:
  "legacyTypes ''apps/Deployment'' = Some deploymentConditions"
  "legacyTypes ''extensions/Deployment'' = Some deploymentConditions"
  by (simp_all add: legacyTypes_def)

subsection \<open>Which rules read the clock\<close>











subsection \<open>The retry loop when every read fails\<close>

lemma retryLoop_fetch_errors:
  assumes "\<And>n. \<exists>e. responses w n = GetErr e \<and> \<not> IsNotFound e"
  shows "fst (retryLoop w u d None attempt st) = Inr (None, Some (exhausted u))"
proof (induction "maxRetries - attempt" arbitrary: attempt st)
  case 0
  then show ?case by (simp add: retryLoop.simps [of w u d None attempt st] exhausted_def)
next
  case (Suc k)
  then have lt: "attempt < maxRetries" and k: "k = maxRetries - (attempt + 1)" by simp_all
  from assms obtain e where e: "responses w (calls st) = GetErr e" "\<not> IsNotFound e" by blast
  show ?case
    using lt e Suc.hyps(1) [OF k]
    by (simp add: retryLoop.simps [of w u d None attempt st] getStatus_def clientGet_def Let_def)
qed

section \<open>The claims\<close>

text \<open>
  C1. Every verdict of the classifier satisfies the invariant of \<open>Result\<close>: whatever
  \<open>Compute\<close>, the generic rules or any classifier of the registry returns as a verdict
  has status True exactly when its reason is Ready, NoStatusInfo or UserManaged, and status
  False exactly when its reason is Terminating, InProgress or Failed.
\<close>

theorem Compute_Result_invariant:
  "(Compute ev obj = Inr r \<longrightarrow> Result_inv r)
   \<and> (checkGenericProperties ev obj = Inr (Some r) \<longrightarrow> Result_inv r)
   \<and> (\<forall>key fn. legacyTypes key = Some fn \<longrightarrow> fn ev obj = Inr r \<longrightarrow> Result_inv r)"
  by (auto simp: Compute_def GetLegacyConditionsFn_def inv_intros split: sum.splits option.splits
      dest: checkGenericProperties_inv legacyTypes_inv)

text \<open>The verdict of \<open>Compute\<close> on the Deployment of the test, the verdict of the
  generic rules on a Deployment that is being deleted, and the verdict of the classifier
  registered for ConfigMap.\<close>

theorem Compute_Result_invariant_witness:
  "Compute (clockAfter 0) deploymentManifest
     = Inr (ready ''Deployment is available. Replicas: 1'')
   \<and> Result_inv (ready ''Deployment is available. Replicas: 1'')
   \<and> checkGenericProperties (clockAfter 0) deletingDeployment = Inr (Some terminating)
   \<and> Result_inv terminating
   \<and> legacyTypes ''ConfigMap'' = Some alwaysReady
   \<and> alwaysReady (clockAfter 0) widgetManifest = Inr (ready ''ready'')
   \<and> Result_inv (ready ''ready'')"
proof -
  have e: "Compute (clockAfter 0) deploymentManifest
             = Inr (ready ''Deployment is available. Replicas: 1'')"
    by code_simp
  have g: "checkGenericProperties (clockAfter 0) deletingDeployment = Inr (Some terminating)"
    by code_simp
  have k: "legacyTypes ''ConfigMap'' = Some alwaysReady"
    by (simp add: legacyTypes_def)
  have a: "alwaysReady (clockAfter 0) widgetManifest = Inr (ready ''ready'')"
    by (simp add: alwaysReady_def)
  from Compute_Result_invariant [of "clockAfter 0" deploymentManifest
      "ready ''Deployment is available. Replicas: 1''"]
    Compute_Result_invariant [of "clockAfter 0" deletingDeployment terminating]
    Compute_Result_invariant [of "clockAfter 0" widgetManifest "ready ''ready''"]
    e g k a
  show ?thesis by blast
qed




text \<open>
  C3. A snapshot whose \<^verbatim>\<open>metadata.deletionTimestamp\<close> holds a non-empty string is
  Terminating (status False), whatever its kind and whatever else it contains: the
  deletion rule comes before every other rule.
\<close>

theorem deletion_takes_precedence:
  assumes "map_of obj ''metadata'' = Some (VMap md)"
    and "map_of md ''deletionTimestamp'' = Some (VString ts)"
    and "ts \<noteq> []"
  shows "Compute ev obj
           = Inr \<lparr>Status = ConditionFalse, Reason = ReasonTerminating, Message = []\<rparr>"
  using assms
  by (simp add: Compute_def checkGenericProperties_def NestedString_def terminating_def)

text \<open>A Deployment that is being deleted is Terminating.\<close>

theorem deletion_takes_precedence_witness:
  "Compute (clockAfter 0) deletingDeployment
     = Inr \<lparr>Status = ConditionFalse, Reason = ReasonTerminating, Message = []\<rparr>"
  using deletion_takes_precedence [of deletingDeployment
      "[(''name'', VString ''test''), (''deletionTimestamp'', VString ''2024-03-29T00:58:41Z'')]"
      "''2024-03-29T00:58:41Z''" "clockAfter 0"]
  by (simp add: deletingDeployment_def)

text \<open>
  C4. When every attempt fails, the poller returns an error that names the resource and
  the number of attempts. The error of the last attempt is not in it: here every read
  fails with "connection refused", and the error returned after five attempts wraps
  nothing and prints a nil.
\<close>

theorem exhausted_retries_drop_last_error:
  "fst (getStatusWithRetries refusingCluster deploymentManifest False)
     = Inr (None, Some (Errorf
         ''getStatus gvk apps/v1, Kind=Deployment nsn qual/test after 5 retries: %!w(<nil>)''
         None))"
proof -
  have "\<exists>e. responses refusingCluster n = GetErr e \<and> \<not> IsNotFound e" for n
    by (simp add: refusingCluster_def)
  then have "fst (getStatusWithRetries refusingCluster deploymentManifest False)
               = Inr (None, Some (exhausted deploymentManifest))"
    unfolding getStatusWithRetries_def by (rule retryLoop_fetch_errors)
  moreover have "gvkString deploymentManifest = ''apps/v1, Kind=Deployment''"
    by code_simp
  moreover have "nsnString deploymentManifest = ''qual/test''"
    by code_simp
  ultimately show ?thesis by (simp add: exhausted_def showInt_5)
qed

text \<open>
  C5. A snapshot on which no generic rule yields a verdict (no non-empty deletion
  timestamp, no generation mismatch, conditions without one of type Ready) and whose
  group and kind have no classifier in the registry gets exactly the verdict
  True, NoStatusInfo with an empty message, and no error.
\<close>

theorem unregistered_kind_NoStatusInfo:
  assumes "notDeleting obj" and "noGenerationMismatch obj" and "noReadyCondition ev obj"
    and "legacyTypes (registryKey obj) = None"
  shows "Compute ev obj
           = Inr \<lparr>Status = ConditionTrue, Reason = ReasonNoStatusInfo, Message = []\<rparr>"
  using no_generic_verdict [OF assms(1-3)] assms(4)
  by (simp add: Compute_def GetLegacyConditionsFn_def noStatusInfo_def)

text \<open>A Widget of the group example.dev has no classifier and no status.\<close>

theorem unregistered_kind_NoStatusInfo_witness:
  "notDeleting widgetManifest \<and> noGenerationMismatch widgetManifest
   \<and> noReadyCondition (clockAfter 0) widgetManifest \<and> legacyTypes (registryKey widgetManifest) = None
   \<and> Compute (clockAfter 0) widgetManifest
       = Inr \<lparr>Status = ConditionTrue, Reason = ReasonNoStatusInfo, Message = []\<rparr>"
proof -
  have a: "notDeleting widgetManifest" by code_simp
  have b: "noGenerationMismatch widgetManifest" by code_simp
  have c: "noReadyCondition (clockAfter 0) widgetManifest" by code_simp
  have d: "legacyTypes (registryKey widgetManifest) = None" by code_simp
  from unregistered_kind_NoStatusInfo [OF a b c d] a b c d
  show ?thesis by simp
qed

text \<open>
  C6. A malformed container status is not turned into an error: the type assertion on the
  name of the container panics. The snapshot is a running Pod without a Ready condition
  whose \<^verbatim>\<open>status.containerStatuses\<close> has one entry with the number 7 as its name.
\<close>

theorem malformed_container_status_panics:
  "Compute (clockAfter 0) malformedPod = Inl (Panic ''interface conversion: not string'')"
  by code_simp



text \<open>
  C8. When the poll validates a deletion and the first read answers not-found, the poller
  returns success without an object; it has slept the initial settle delay, read once, and
  neither retried nor slept a backoff.
\<close>

theorem deletion_not_found_succeeds_at_once:
  assumes "responses w 0 = GetErr e" and "IsNotFound e"
  shows "getStatusWithRetries w u True
           = (Inr (None, None), \<lparr>calls = 1, trace = [Slept initialGetDelay, Fetched 0]\<rparr>)"
  using assms
  by (simp add: getStatusWithRetries_def retryLoop.simps [of w u True None 0] getStatus_def
      clientGet_def sleep_def maxRetries_def)

text \<open>A deletion polled against a cluster that no longer has the resource.\<close>

theorem deletion_not_found_succeeds_at_once_witness:
  "getStatusWithRetries emptyCluster deletingDeployment True
     = (Inr (None, None), \<lparr>calls = 1, trace = [Slept initialGetDelay, Fetched 0]\<rparr>)"
  using deletion_not_found_succeeds_at_once [of emptyCluster
      "NotFoundError ''deployments.apps test not found''" deletingDeployment]
  by (simp add: emptyCluster_def)

text \<open>
  C9, as amended. A Deployment (group apps or extensions) that is not being deleted and
  has no condition of type Ready, with \<^verbatim>\<open>spec.replicas\<close> 1 or unset, the four replica
  counts of its status equal to 1, matching generations and the conditions
  Progressing=True/NewReplicaSetAvailable and Available=True, is Ready with the message
  "Deployment is available. Replicas: 1" and no error. The numbers are held as native
  integers and the conditions are one per type, as the type of the condition list
  documents.
\<close>

theorem deployment_available:
  assumes kind: "registryKey obj = ''apps/Deployment'' \<or> registryKey obj = ''extensions/Deployment''"
    and nodel: "notDeleting obj"
    and gen: "noGenerationMismatch obj"
    and noready: "noReadyCondition ev obj"
    and spec: "holdsInt obj [''spec'', ''replicas''] 1
               \<or> NestedFieldNoCopy (VMap obj) [''spec'', ''replicas''] = Inr None"
    and replicas: "holdsInt obj [''status'', ''replicas''] 1"
    and updated: "holdsInt obj [''status'', ''updatedReplicas''] 1"
    and readyr: "holdsInt obj [''status'', ''readyReplicas''] 1"
    and availr: "holdsInt obj [''status'', ''availableReplicas''] 1"
    and decode: "GetObjectWithConditions ev obj = Inr conds"
    and single: "distinct (map ctype conds)"
    and prog: "\<exists>c \<in> set conds. ctype c = ''Progressing'' \<and> cstatus c = ConditionTrue
                 \<and> creason c = ''NewReplicaSetAvailable''"
    and avail: "\<exists>c \<in> set conds. ctype c = ''Available'' \<and> cstatus c = ConditionTrue"
  shows "Compute ev obj
           = Inr \<lparr>Status = ConditionTrue, Reason = ReasonReady,
                  Message = ''Deployment is available. Replicas: 1''\<rparr>"
proof -
  have generic: "checkGenericProperties ev obj = Inr None"
    by (rule no_generic_verdict [OF nodel gen noready])
  have fn: "GetLegacyConditionsFn obj = Some deploymentConditions"
    using kind by (auto simp: GetLegacyConditionsFn_def legacyTypes_Deployment)
  have sr: "GetIntField obj ''.spec.replicas'' 1 = 1"
    using spec GetIntField_holdsInt [of obj "''.spec.replicas''" 1 1]
      GetIntField_unset [of obj "''.spec.replicas''" 1]
    by (auto simp: path_fields_simps)
  have r: "GetIntField obj ''.status.replicas'' 0 = 1"
    using replicas GetIntField_holdsInt [of obj "''.status.replicas''" 1 0]
    by (simp add: path_fields_simps)
  have u: "GetIntField obj ''.status.updatedReplicas'' 0 = 1"
    using updated GetIntField_holdsInt [of obj "''.status.updatedReplicas''" 1 0]
    by (simp add: path_fields_simps)
  have rr: "GetIntField obj ''.status.readyReplicas'' 0 = 1"
    using readyr GetIntField_holdsInt [of obj "''.status.readyReplicas''" 1 0]
    by (simp add: path_fields_simps)
  have ar: "GetIntField obj ''.status.availableReplicas'' 0 = 1"
    using availr GetIntField_holdsInt [of obj "''.status.availableReplicas''" 1 0]
    by (simp add: path_fields_simps)
  have nodeadline:
    "\<forall>c \<in> set conds. ctype c = ''Progressing'' \<longrightarrow> creason c \<noteq> ''ProgressDeadlineExceeded''"
  proof (intro ballI impI)
    fix c assume c: "c \<in> set conds" "ctype c = ''Progressing''"
    from prog obtain p where p: "p \<in> set conds" "ctype p = ''Progressing''"
      "creason p = ''NewReplicaSetAvailable''" by blast
    from one_per_type [OF single c(1) p(1)] c(2) p(2) have "c = p" by simp
    with p(3) show "creason c \<noteq> ''ProgressDeadlineExceeded''" by simp
  qed
  have scan: "deploymentScan conds b False = Inr (True, True)" for b
    using deploymentScan_flags [OF nodeadline, of b False] prog avail by simp
  have "deploymentConditions ev obj = Inr (ready (''Deployment is available. Replicas: '' @ fmt_d 1))"
    by (simp add: deploymentConditions_def decode scan sr r u rr ar)
  then show ?thesis
    using generic fn by (simp add: Compute_def ready_def fmt_d_1)
qed

text \<open>The Deployment of the test.\<close>

theorem deployment_available_witness:
  "Compute (clockAfter 0) deploymentManifest
     = Inr \<lparr>Status = ConditionTrue, Reason = ReasonReady,
            Message = ''Deployment is available. Replicas: 1''\<rparr>"
proof -
  let ?p = "\<lparr>ctype = ''Progressing'', cstatus = ''True'', creason = ''NewReplicaSetAvailable'',
              cmessage = []\<rparr>"
  let ?a = "\<lparr>ctype = ''Available'', cstatus = ''True'', creason = [], cmessage = []\<rparr>"
  have k: "registryKey deploymentManifest = ''apps/Deployment''
           \<or> registryKey deploymentManifest = ''extensions/Deployment''" by code_simp
  have nd: "notDeleting deploymentManifest" by code_simp
  have g: "noGenerationMismatch deploymentManifest" by code_simp
  have nr: "noReadyCondition (clockAfter 0) deploymentManifest" by code_simp
  have sp: "holdsInt deploymentManifest [''spec'', ''replicas''] 1
            \<or> NestedFieldNoCopy (VMap deploymentManifest) [''spec'', ''replicas''] = Inr None"
    by (simp add: deploymentManifest_def)
  have r1: "holdsInt deploymentManifest [''status'', ''replicas''] 1" by code_simp
  have r2: "holdsInt deploymentManifest [''status'', ''updatedReplicas''] 1" by code_simp
  have r3: "holdsInt deploymentManifest [''status'', ''readyReplicas''] 1" by code_simp
  have r4: "holdsInt deploymentManifest [''status'', ''availableReplicas''] 1" by code_simp
  have d: "GetObjectWithConditions (clockAfter 0) deploymentManifest = Inr [?p, ?a]"
    by code_simp
  have single: "distinct (map ctype [?p, ?a])" by simp
  have pr: "\<exists>c \<in> set [?p, ?a]. ctype c = ''Progressing'' \<and> cstatus c = ConditionTrue
              \<and> creason c = ''NewReplicaSetAvailable''"
    by (simp add: ConditionTrue_def)
  have av: "\<exists>c \<in> set [?p, ?a]. ctype c = ''Available'' \<and> cstatus c = ConditionTrue"
    by (simp add: ConditionTrue_def)
  show ?thesis
    by (rule deployment_available [OF k nd g nr sp r1 r2 r3 r4 d single pr av])
qed

text \<open>
  C9 as stated fails: of two Deployments with every property it lists, the one that is
  being deleted is Terminating and the one with a condition Ready=False is InProgress.
\<close>

theorem deployment_available_needs_kind_rule:
  "Compute (clockAfter 0) deletingAvailableDeployment = Inr terminating
   \<and> Compute (clockAfter 0) deletingAvailableDeployment
       \<noteq> Inr \<lparr>Status = ConditionTrue, Reason = ReasonReady,
               Message = ''Deployment is available. Replicas: 1''\<rparr>
   \<and> Compute (clockAfter 0) unreadyAvailableDeployment = Inr (inProgress ''waiting'')
   \<and> Compute (clockAfter 0) unreadyAvailableDeployment
       \<noteq> Inr \<lparr>Status = ConditionTrue, Reason = ReasonReady,
               Message = ''Deployment is available. Replicas: 1''\<rparr>"
  by code_simp

text \<open>
  C10. \<open>GetIntField\<close> returns the stored number only when it is held as int, int32 or
  int64. Any other value found at the path, a float64 in particular, is ignored and the
  default is returned.
\<close>

theorem GetIntField_native_only:
  assumes "NestedFieldNoCopy (VMap obj) (path_fields fieldPath) = Inr (Some v)"
  shows "GetIntField obj fieldPath d =
           (case v of VInt n \<Rightarrow> n | VInt32 n \<Rightarrow> scast n | VInt64 n \<Rightarrow> n | _ \<Rightarrow> d)"
  using assms by (simp add: GetIntField_def split: val.splits)

text \<open>A replica count held as the float64 1.0 is read as the default 0.\<close>

theorem GetIntField_native_only_witness:
  "NestedFieldNoCopy (VMap deploymentFloats) (path_fields ''.status.replicas'')
     = Inr (Some (VFloat64 (Float64 1 0)))
   \<and> GetIntField deploymentFloats ''.status.replicas'' 0 = 0"
proof -
  have f: "NestedFieldNoCopy (VMap deploymentFloats) (path_fields ''.status.replicas'')
             = Inr (Some (VFloat64 (Float64 1 0)))"
    by code_simp
  from GetIntField_native_only [OF f, of 0] f show ?thesis by simp
qed

end
